theory Spec2Isabelle
  imports Complex_Main "HOL-Library.AList"
begin

section \<open>Python values, errors and effects\<close>

text \<open>
  The configuration is whatever \<^verbatim>\<open>read_config\<close> returns: a JSON document, that is a
  Python value built from \<^verbatim>\<open>None\<close>, booleans, numbers, strings, lists and dictionaries
  with string keys. \<open>PDevice\<close> stands for a \<^verbatim>\<open>torch.device\<close> object, which
  \<^verbatim>\<open>main\<close> stores in the configuration. A dictionary is an association list read
  with \<open>map_of\<close>.
\<close>

datatype pyval =
    PNone
  | PBool bool
  | PInt int
  | PFloat real
  | PStr string
  | PDevice string
  | PList "pyval list"
  | PDict "(string \<times> pyval) list"

datatype error =
    KeyError string
  | TypeError string
  | ValueError string
  | IndexError string
  | RuntimeError string

text \<open>
  A computation runs in a world \<open>'w\<close> (the random number generators, the file system,
  the loggers: everything the external libraries read and write) and either raises or
  returns.
\<close>

type_synonym ('w, 'a) py = "'w \<Rightarrow> (error + 'a) \<times> 'w"

definition py_return :: "'a \<Rightarrow> ('w, 'a) py" where
  "py_return v = (\<lambda>w. (Inr v, w))"

definition py_raise :: "error \<Rightarrow> ('w, 'a) py" where
  "py_raise e = (\<lambda>w. (Inl e, w))"

definition py_lift :: "error + 'a \<Rightarrow> ('w, 'a) py" where
  "py_lift r = (\<lambda>w. (r, w))"

definition py_bind :: "('w, 'a) py \<Rightarrow> ('a \<Rightarrow> ('w, 'b) py) \<Rightarrow> ('w, 'b) py" where
  "py_bind m f = (\<lambda>w. case m w of (Inl e, w') \<Rightarrow> (Inl e, w') | (Inr v, w') \<Rightarrow> f v w')"

text \<open>\<^verbatim>\<open>obj[key]\<close> with a string key.\<close>

fun getitem :: "pyval \<Rightarrow> string \<Rightarrow> error + pyval" where
  "getitem (PDict kvs) k = (case map_of kvs k of None \<Rightarrow> Inl (KeyError k) | Some v \<Rightarrow> Inr v)"
| "getitem (PStr s) k = Inl (TypeError ''string indices must be integers'')"
| "getitem (PList vs) k = Inl (TypeError ''list indices must be integers or slices, not str'')"
| "getitem v k = Inl (TypeError ''object is not subscriptable'')"



text \<open>
  The keyword arguments of a constructor call
  \<^verbatim>\<open>C(a=model_config["k1"], b=model_config["k2"], ...)\<close> are evaluated from left to
  right; the first failing lookup raises. The list pairs each keyword with the key it is
  read from.
\<close>

fun keyword_args :: "pyval \<Rightarrow> (string \<times> string) list \<Rightarrow> error + (string \<times> pyval) list" where
  "keyword_args mc [] = Inr []"
| "keyword_args mc ((kw, k) # rest) =
     (case getitem mc k of
        Inl e \<Rightarrow> Inl e
      | Inr v \<Rightarrow> (case keyword_args mc rest of
                   Inl e \<Rightarrow> Inl e
                 | Inr kvs \<Rightarrow> Inr ((kw, v) # kvs)))"

section \<open>The external model classes\<close>

text \<open>
  \<^verbatim>\<open>geom3d.models\<close> and \<^verbatim>\<open>torch.nn.Linear\<close> are not part of the two source files.
  Calling a class runs its initialiser, which may read and change the world (the
  parameters are drawn from torch's random number generator) and may raise; when it
  returns, the result is an instance of that class. The initialisers are parameters of
  the embedding.
\<close>

datatype model_class = SchNet | DimeNet | DimeNetPlusPlus | GemNet | SphereNet

record 's model_instance =
  cls :: model_class
  state :: 's

record ('w, 's, 'l) model_lib =
  model_init :: "model_class \<Rightarrow> (string \<times> pyval) list \<Rightarrow> ('w, 's) py"
  linear_init :: "pyval \<Rightarrow> pyval \<Rightarrow> ('w, 'l) py"

definition new_instance ::
  "('w, 's, 'l) model_lib \<Rightarrow> model_class \<Rightarrow> (string \<times> pyval) list \<Rightarrow> ('w, 's model_instance) py" where
  "new_instance lib C kwargs =
     py_bind (model_init lib C kwargs) (\<lambda>s. py_return \<lparr>cls = C, state = s\<rparr>)"

section \<open>The model factory\<close>

text \<open>\<^verbatim>\<open>model_setup\<close> of \<^verbatim>\<open>pl_model.py\<close>, lines 54 to 159.\<close>

definition model_setup_pl ::
  "('w, 's, 'l) model_lib \<Rightarrow> pyval \<Rightarrow> ('w, 's model_instance \<times> 'l option) py" where
  "model_setup_pl lib config =
   py_bind (py_lift (getitem config ''model'')) (\<lambda>model_config.
   py_bind (py_lift (getitem config ''model_name'')) (\<lambda>n.
   if n = PStr ''SchNet'' then
     py_bind (py_lift (keyword_args model_config
       [(''hidden_channels'', ''emb_dim''),
        (''num_filters'', ''SchNet_num_filters''),
        (''num_interactions'', ''SchNet_num_interactions''),
        (''num_gaussians'', ''SchNet_num_gaussians''),
        (''cutoff'', ''SchNet_cutoff''),
        (''readout'', ''SchNet_readout''),
        (''node_class'', ''node_class'')])) (\<lambda>kwargs.
     py_bind (new_instance lib SchNet kwargs) (\<lambda>model.
     py_bind (py_lift (getitem model_config ''emb_dim'')) (\<lambda>in_features.
     py_bind (py_lift (getitem model_config ''num_tasks'')) (\<lambda>out_features.
     py_bind (linear_init lib in_features out_features) (\<lambda>graph_pred_linear.
     py_return (model, Some graph_pred_linear))))))
   else
   py_bind (py_lift (getitem config ''model_name'')) (\<lambda>n.
   if n = PStr ''DimeNet'' then
     py_bind (py_lift (keyword_args model_config
       [(''node_class'', ''node_class''),
        (''hidden_channels'', ''hidden_channels''),
        (''out_channels'', ''out_channels''),
        (''num_blocks'', ''num_blocks''),
        (''num_bilinear'', ''num_bilinear''),
        (''num_spherical'', ''num_spherical''),
        (''num_radial'', ''num_radial''),
        (''cutoff'', ''cutoff''),
        (''envelope_exponent'', ''envelope_exponent''),
        (''num_before_skip'', ''num_before_skip''),
        (''num_after_skip'', ''num_after_skip''),
        (''num_output_layers'', ''num_output_layers'')])) (\<lambda>kwargs.
     py_bind (new_instance lib DimeNet kwargs) (\<lambda>model.
     py_return (model, None)))
   else
   py_bind (py_lift (getitem config ''model_name'')) (\<lambda>n.
   if n = PStr ''DimeNetPlusPlus'' then
     py_bind (py_lift (keyword_args model_config
       [(''node_class'', ''node_class''),
        (''hidden_channels'', ''hidden_channels''),
        (''out_channels'', ''out_channels''),
        (''num_blocks'', ''num_blocks''),
        (''int_emb_size'', ''int_emb_size''),
        (''basis_emb_size'', ''basis_emb_size''),
        (''out_emb_channels'', ''out_emb_channels''),
        (''num_spherical'', ''num_spherical''),
        (''num_radial'', ''num_radial''),
        (''cutoff'', ''cutoff''),
        (''envelope_exponent'', ''envelope_exponent''),
        (''num_before_skip'', ''num_before_skip''),
        (''num_after_skip'', ''num_after_skip''),
        (''num_output_layers'', ''num_output_layers'')])) (\<lambda>kwargs.
     py_bind (new_instance lib DimeNetPlusPlus kwargs) (\<lambda>model.
     py_return (model, None)))
   else
   py_bind (py_lift (getitem config ''model_name'')) (\<lambda>n.
   if n = PStr ''GemNet'' then
     py_bind (py_lift (keyword_args model_config
       [(''node_class'', ''node_class''),
        (''num_targets'', ''num_targets''),
        (''num_blocks'', ''num_blocks''),
        (''emb_size_atom'', ''emb_size_atom''),
        (''emb_size_edge'', ''emb_size_edge''),
        (''emb_size_trip'', ''emb_size_trip''),
        (''emb_size_quad'', ''emb_size_quad''),
        (''emb_size_rbf'', ''emb_size_rbf''),
        (''emb_size_cbf'', ''emb_size_cbf''),
        (''emb_size_sbf'', ''emb_size_sbf''),
        (''emb_size_bil_quad'', ''emb_size_bil_quad''),
        (''emb_size_bil_trip'', ''emb_size_bil_trip''),
        (''num_concat'', ''num_concat''),
        (''num_atom'', ''num_atom''),
        (''triplets_only'', ''triplets_only''),
        (''direct_forces'', ''direct_forces''),
        (''extensive'', ''extensive''),
        (''forces_coupled'', ''forces_coupled''),
        (''cutoff'', ''cutoff''),
        (''int_cutoff'', ''int_cutoff''),
        (''envelope_exponent'', ''envelope_exponent''),
        (''num_spherical'', ''num_spherical''),
        (''num_radial'', ''num_radial''),
        (''num_before_skip'', ''num_before_skip''),
        (''num_after_skip'', ''num_after_skip'')])) (\<lambda>kwargs.
     py_bind (new_instance lib GemNet kwargs) (\<lambda>model.
     py_return (model, None)))
   else
   py_bind (py_lift (getitem config ''model_name'')) (\<lambda>n.
   if n = PStr ''SphereNet'' then
     py_bind (py_lift (keyword_args model_config
       [(''hidden_channels'', ''hidden_channels''),
        (''out_channels'', ''out_channels''),
        (''cutoff'', ''cutoff''),
        (''num_layers'', ''num_layers''),
        (''int_emb_size'', ''int_emb_size''),
        (''basis_emb_size_dist'', ''basis_emb_size_dist''),
        (''basis_emb_size_angle'', ''basis_emb_size_angle''),
        (''basis_emb_size_torsion'', ''basis_emb_size_torsion''),
        (''out_emb_channels'', ''out_emb_channels''),
        (''num_spherical'', ''num_spherical''),
        (''num_radial'', ''num_radial''),
        (''envelope_exponent'', ''envelope_exponent''),
        (''num_before_skip'', ''num_before_skip''),
        (''num_after_skip'', ''num_after_skip''),
        (''num_output_layers'', ''num_output_layers'')])) (\<lambda>kwargs.
     py_bind (new_instance lib SphereNet ((''energy_and_force'', PBool False) # kwargs)) (\<lambda>model.
     py_return (model, None)))
   else
     py_raise (ValueError ''Invalid model name'')))))))"


text \<open>\<^verbatim>\<open>model_setup\<close> of \<^verbatim>\<open>train_models.py\<close>, lines 84 to 189: the one \<^verbatim>\<open>main\<close> calls.\<close>

definition model_setup_train ::
  "('w, 's, 'l) model_lib \<Rightarrow> pyval \<Rightarrow> ('w, 's model_instance \<times> 'l option) py" where
  "model_setup_train lib config =
   py_bind (py_lift (getitem config ''model'')) (\<lambda>model_config.
   py_bind (py_lift (getitem config ''model_name'')) (\<lambda>n.
   if n = PStr ''SchNet'' then
     py_bind (py_lift (keyword_args model_config
       [(''hidden_channels'', ''emb_dim''),
        (''num_filters'', ''SchNet_num_filters''),
        (''num_interactions'', ''SchNet_num_interactions''),
        (''num_gaussians'', ''SchNet_num_gaussians''),
        (''cutoff'', ''SchNet_cutoff''),
        (''readout'', ''SchNet_readout''),
        (''node_class'', ''node_class'')])) (\<lambda>kwargs.
     py_bind (new_instance lib SchNet kwargs) (\<lambda>model.
     py_bind (py_lift (getitem model_config ''emb_dim'')) (\<lambda>in_features.
     py_bind (py_lift (getitem model_config ''num_tasks'')) (\<lambda>out_features.
     py_bind (linear_init lib in_features out_features) (\<lambda>graph_pred_linear.
     py_return (model, Some graph_pred_linear))))))
   else
   py_bind (py_lift (getitem config ''model_name'')) (\<lambda>n.
   if n = PStr ''DimeNet'' then
     py_bind (py_lift (keyword_args model_config
       [(''node_class'', ''node_class''),
        (''hidden_channels'', ''hidden_channels''),
        (''out_channels'', ''out_channels''),
        (''num_blocks'', ''num_blocks''),
        (''num_bilinear'', ''num_bilinear''),
        (''num_spherical'', ''num_spherical''),
        (''num_radial'', ''num_radial''),
        (''cutoff'', ''cutoff''),
        (''envelope_exponent'', ''envelope_exponent''),
        (''num_before_skip'', ''num_before_skip''),
        (''num_after_skip'', ''num_after_skip''),
        (''num_output_layers'', ''num_output_layers'')])) (\<lambda>kwargs.
     py_bind (new_instance lib DimeNet kwargs) (\<lambda>model.
     py_return (model, None)))
   else
   py_bind (py_lift (getitem config ''model_name'')) (\<lambda>n.
   if n = PStr ''DimeNetPlusPlus'' then
     py_bind (py_lift (keyword_args model_config
       [(''node_class'', ''node_class''),
        (''hidden_channels'', ''hidden_channels''),
        (''out_channels'', ''out_channels''),
        (''num_blocks'', ''num_blocks''),
        (''int_emb_size'', ''int_emb_size''),
        (''basis_emb_size'', ''basis_emb_size''),
        (''out_emb_channels'', ''out_emb_channels''),
        (''num_spherical'', ''num_spherical''),
        (''num_radial'', ''num_radial''),
        (''cutoff'', ''cutoff''),
        (''envelope_exponent'', ''envelope_exponent''),
        (''num_before_skip'', ''num_before_skip''),
        (''num_after_skip'', ''num_after_skip''),
        (''num_output_layers'', ''num_output_layers'')])) (\<lambda>kwargs.
     py_bind (new_instance lib DimeNetPlusPlus kwargs) (\<lambda>model.
     py_return (model, None)))
   else
   py_bind (py_lift (getitem config ''model_name'')) (\<lambda>n.
   if n = PStr ''GemNet'' then
     py_bind (py_lift (keyword_args model_config
       [(''node_class'', ''node_class''),
        (''num_targets'', ''num_targets''),
        (''num_blocks'', ''num_blocks''),
        (''emb_size_atom'', ''emb_size_atom''),
        (''emb_size_edge'', ''emb_size_edge''),
        (''emb_size_trip'', ''emb_size_trip''),
        (''emb_size_quad'', ''emb_size_quad''),
        (''emb_size_rbf'', ''emb_size_rbf''),
        (''emb_size_cbf'', ''emb_size_cbf''),
        (''emb_size_sbf'', ''emb_size_sbf''),
        (''emb_size_bil_quad'', ''emb_size_bil_quad''),
        (''emb_size_bil_trip'', ''emb_size_bil_trip''),
        (''num_concat'', ''num_concat''),
        (''num_atom'', ''num_atom''),
        (''triplets_only'', ''triplets_only''),
        (''direct_forces'', ''direct_forces''),
        (''extensive'', ''extensive''),
        (''forces_coupled'', ''forces_coupled''),
        (''cutoff'', ''cutoff''),
        (''int_cutoff'', ''int_cutoff''),
        (''envelope_exponent'', ''envelope_exponent''),
        (''num_spherical'', ''num_spherical''),
        (''num_radial'', ''num_radial''),
        (''num_before_skip'', ''num_before_skip''),
        (''num_after_skip'', ''num_after_skip'')])) (\<lambda>kwargs.
     py_bind (new_instance lib GemNet kwargs) (\<lambda>model.
     py_return (model, None)))
   else
   py_bind (py_lift (getitem config ''model_name'')) (\<lambda>n.
   if n = PStr ''SphereNet'' then
     py_bind (py_lift (keyword_args model_config
       [(''hidden_channels'', ''hidden_channels''),
        (''out_channels'', ''out_channels''),
        (''cutoff'', ''cutoff''),
        (''num_layers'', ''num_layers''),
        (''int_emb_size'', ''int_emb_size''),
        (''basis_emb_size_dist'', ''basis_emb_size_dist''),
        (''basis_emb_size_angle'', ''basis_emb_size_angle''),
        (''basis_emb_size_torsion'', ''basis_emb_size_torsion''),
        (''out_emb_channels'', ''out_emb_channels''),
        (''num_spherical'', ''num_spherical''),
        (''num_radial'', ''num_radial''),
        (''envelope_exponent'', ''envelope_exponent''),
        (''num_before_skip'', ''num_before_skip''),
        (''num_after_skip'', ''num_after_skip''),
        (''num_output_layers'', ''num_output_layers'')])) (\<lambda>kwargs.
     py_bind (new_instance lib SphereNet ((''energy_and_force'', PBool False) # kwargs)) (\<lambda>model.
     py_return (model, None)))
   else
     py_raise (ValueError ''Invalid model name'')))))))"


section \<open>Tensors\<close>

text \<open>
  A tensor is its shape and its elements in row-major order, over exact real arithmetic;
  a well-formed tensor has as many elements as the product of its shape.
\<close>

record tensor =
  shape :: "nat list"
  elems :: "real list"

definition well_formed :: "tensor \<Rightarrow> bool" where
  "well_formed t = (length (elems t) = prod_list (shape t))"

text \<open>
  Modelled from the spec: torch is not part of the sources, and the specification names
  its operations only (unsqueezed, squeezed, mean-squared error); what they do is taken
  from their documentation.

  \<^verbatim>\<open>t.unsqueeze(dim)\<close> inserts a dimension of size one at \<open>dim\<close>, which must lie in
  \<open>[-n-1, n]\<close> for a tensor of \<open>n\<close> dimensions; a negative \<open>dim\<close> counts from the end.
\<close>

definition unsqueeze :: "tensor \<Rightarrow> int \<Rightarrow> error + tensor" where
  "unsqueeze t d =
     (let n = int (length (shape t));
          j = (if d < 0 then d + n + 1 else d)
      in if 0 \<le> j \<and> j \<le> n
         then Inr (t\<lparr>shape := take (nat j) (shape t) @ 1 # drop (nat j) (shape t)\<rparr>)
         else Inl (IndexError ''Dimension out of range''))"

text \<open>
  Modelled from the spec: \<^verbatim>\<open>t.squeeze()\<close>, which removes every dimension of size one.
\<close>

definition squeeze :: "tensor \<Rightarrow> tensor" where
  "squeeze t = t\<lparr>shape := filter (\<lambda>d. d \<noteq> 1) (shape t)\<rparr>"

text \<open>
  Broadcasting aligns two shapes at their last dimension; two sizes are compatible when
  they are equal or one of them is one. The function works on the reversed shapes.
\<close>

fun broadcast_rev :: "nat list \<Rightarrow> nat list \<Rightarrow> nat list option" where
  "broadcast_rev [] bs = Some bs"
| "broadcast_rev (a # as) [] = Some (a # as)"
| "broadcast_rev (a # as) (b # bs) =
     (if a = b \<or> b = 1 then map_option ((#) a) (broadcast_rev as bs)
      else if a = 1 then map_option ((#) b) (broadcast_rev as bs)
      else None)"

definition broadcast_shapes :: "nat list \<Rightarrow> nat list \<Rightarrow> nat list option" where
  "broadcast_shapes s t = map_option rev (broadcast_rev (rev s) (rev t))"

definition pad_shape :: "nat \<Rightarrow> nat list \<Rightarrow> nat list" where
  "pad_shape n s = replicate (n - length s) 1 @ s"

text \<open>
  The elements of a tensor of shape \<open>d # ds\<close> expanded to shape \<open>e # es\<close>: the \<open>d\<close> blocks
  are expanded one by one, and a single block is repeated \<open>e\<close> times when \<open>d = 1\<close>.
\<close>

fun expand_elems :: "nat list \<Rightarrow> nat list \<Rightarrow> real list \<Rightarrow> real list" where
  "expand_elems (d # ds) (e # es) xs =
     (let blocks =
            map (\<lambda>i. expand_elems ds es (take (prod_list ds) (drop (i * prod_list ds) xs)))
              [0..<d]
      in if d = e then concat blocks else concat (replicate e (concat blocks)))"
| "expand_elems ds es xs = xs"

text \<open>A scalar loss: a real number, or the \<^verbatim>\<open>nan\<close> that the mean of no elements is.\<close>

datatype scalar = Finite real | NaN

text \<open>
  Modelled from the spec: \<^verbatim>\<open>torch.nn.functional.mse_loss\<close> is not part of the sources;
  it is the mean-squared error that the specification names. With the default
  reduction, \<^verbatim>\<open>mse_loss(input, target)\<close> broadcasts both tensors to a common shape (a
  \<^verbatim>\<open>RuntimeError\<close> when there is none) and returns the mean of the squared differences
  of their elements, which is \<^verbatim>\<open>nan\<close> when there is no element.
\<close>

definition squared_differences :: "real list \<Rightarrow> real list \<Rightarrow> real list" where
  "squared_differences as bs = map (\<lambda>(a, b). (a - b)\<^sup>2) (zip as bs)"

definition mse_loss :: "tensor \<Rightarrow> tensor \<Rightarrow> error + scalar" where
  "mse_loss z t =
     (case broadcast_shapes (shape z) (shape t) of
        None \<Rightarrow> Inl (RuntimeError ''The size of tensor a must match the size of tensor b'')
      | Some r \<Rightarrow>
          (let a = expand_elems (pad_shape (length r) (shape z)) r (elems z);
               b = expand_elems (pad_shape (length r) (shape t)) r (elems t);
               n = prod_list r
           in if n = 0 then Inr NaN
              else Inr (Finite (sum_list (squared_differences a b) / real n))))"

section \<open>The training adapter\<close>

text \<open>
  \<^verbatim>\<open>Pymodel\<close> holds the model and the optional projection head; its initialiser
  stores the two and leaves the rest to the framework, which keeps no hyperparameter
  (both arguments are ignored by \<^verbatim>\<open>save_hyperparameters\<close>). A batch has the fields
  \<^verbatim>\<open>x\<close>, \<^verbatim>\<open>positions\<close>, \<^verbatim>\<open>batch\<close> and \<^verbatim>\<open>y\<close>.
\<close>

record ('s, 'l) pymodel =
  molecule_3D_repr :: "'s model_instance"
  graph_pred_linear :: "'l option"

definition Pymodel :: "'s model_instance \<Rightarrow> 'l option \<Rightarrow> ('s, 'l) pymodel" where
  "Pymodel model head = \<lparr>molecule_3D_repr = model, graph_pred_linear = head\<rparr>"

record graph_batch =
  batch_x :: tensor
  batch_positions :: tensor
  batch_batch :: tensor
  batch_y :: tensor

datatype optimizer_class = Adam


text \<open>
  What the adapter calls and does not define: the forward pass of the model and of the
  linear layer, \<^verbatim>\<open>batch.size\<close>, \<^verbatim>\<open>self.log\<close>, \<^verbatim>\<open>self.parameters\<close> and the
  initialiser of the optimizer class.
\<close>

record ('w, 's, 'l, 'prm, 'os) torch_rt =
  module_call :: "'s model_instance \<Rightarrow> tensor \<Rightarrow> tensor \<Rightarrow> tensor \<Rightarrow> ('w, tensor) py"
  linear_call :: "'l \<Rightarrow> tensor \<Rightarrow> ('w, tensor) py"
  size_call :: "graph_batch \<Rightarrow> int \<Rightarrow> ('w, int) py"
  log_call :: "string \<Rightarrow> scalar \<Rightarrow> int \<Rightarrow> ('w, unit) py"
  parameters :: "('s, 'l) pymodel \<Rightarrow> 'prm"
  optimizer_init :: "optimizer_class \<Rightarrow> 'prm \<Rightarrow> real \<Rightarrow> ('w, 'os) py"

text \<open>\<^verbatim>\<open>Pymodel._get_preds_loss_accuracy\<close>, lines 29 to 42.\<close>

definition get_preds_loss_accuracy ::
  "('w, 's, 'l, 'prm, 'os) torch_rt \<Rightarrow> ('s, 'l) pymodel \<Rightarrow> graph_batch \<Rightarrow> ('w, scalar) py" where
  "get_preds_loss_accuracy rt self batch =
     (case graph_pred_linear self of
        Some head \<Rightarrow>
          py_bind (module_call rt (molecule_3D_repr self)
                     (batch_x batch) (batch_positions batch) (batch_batch batch)) (\<lambda>z.
          py_bind (linear_call rt head z) (\<lambda>z.
          py_bind (py_lift (unsqueeze (batch_y batch) 1)) (\<lambda>target.
          py_lift (mse_loss z target))))
      | None \<Rightarrow>
          py_bind (module_call rt (molecule_3D_repr self)
                     (batch_x batch) (batch_positions batch) (batch_batch batch)) (\<lambda>z.
          py_lift (mse_loss (squeeze z) (batch_y batch))))"




text \<open>
  \<^verbatim>\<open>Pymodel.forward\<close>, lines 48 to 51. The head is called without a test; calling
  \<^verbatim>\<open>None\<close> raises a \<^verbatim>\<open>TypeError\<close>.
\<close>

definition forward ::
  "('w, 's, 'l, 'prm, 'os) torch_rt \<Rightarrow> ('s, 'l) pymodel \<Rightarrow> graph_batch \<Rightarrow> ('w, tensor) py" where
  "forward rt self batch =
     py_bind (module_call rt (molecule_3D_repr self)
                (batch_x batch) (batch_positions batch) (batch_batch batch)) (\<lambda>z.
     (case graph_pred_linear self of
        None \<Rightarrow> py_raise (TypeError ''NoneType object is not callable'')
      | Some head \<Rightarrow> linear_call rt head z))"


section \<open>The driver\<close>




section \<open>The loss as the specification words it\<close>

text \<open>
  The predictions are the model output passed through the head when there is one and
  the squeezed model output otherwise; the target is \<^verbatim>\<open>y\<close> with a trailing dimension
  of size one when there is a head and \<^verbatim>\<open>y\<close> itself otherwise; the loss is the mean
  squared error of the predictions against the target.
\<close>

definition spec_predictions ::
  "('w, 's, 'l, 'prm, 'os) torch_rt \<Rightarrow> ('s, 'l) pymodel \<Rightarrow> graph_batch \<Rightarrow> ('w, tensor) py" where
  "spec_predictions rt self batch =
     py_bind (module_call rt (molecule_3D_repr self)
                (batch_x batch) (batch_positions batch) (batch_batch batch)) (\<lambda>out.
     (case graph_pred_linear self of
        Some head \<Rightarrow> linear_call rt head out
      | None \<Rightarrow> py_return (squeeze out)))"

definition spec_target :: "('s, 'l) pymodel \<Rightarrow> graph_batch \<Rightarrow> error + tensor" where
  "spec_target self batch =
     (case graph_pred_linear self of
        Some head \<Rightarrow> unsqueeze (batch_y batch) 1
      | None \<Rightarrow> Inr (batch_y batch))"

definition spec_loss ::
  "('w, 's, 'l, 'prm, 'os) torch_rt \<Rightarrow> ('s, 'l) pymodel \<Rightarrow> graph_batch \<Rightarrow> ('w, scalar) py" where
  "spec_loss rt self batch =
     py_bind (spec_predictions rt self batch) (\<lambda>predictions.
     py_bind (py_lift (spec_target self batch)) (\<lambda>target.
     py_lift (mse_loss predictions target)))"

section \<open>Vocabulary of the statements\<close>

text \<open>The five supported names, each the name of its class.\<close>

fun class_name :: "model_class \<Rightarrow> string" where
  "class_name SchNet = ''SchNet''"
| "class_name DimeNet = ''DimeNet''"
| "class_name DimeNetPlusPlus = ''DimeNetPlusPlus''"
| "class_name GemNet = ''GemNet''"
| "class_name SphereNet = ''SphereNet''"



text \<open>An external call that returns in every world.\<close>

definition returns_always :: "('w, 'a) py \<Rightarrow> bool" where
  "returns_always m = (\<forall>w. \<exists>v w'. m w = (Inr v, w'))"

text \<open>A computation that, started in \<open>w\<close>, returns a value satisfying \<open>P\<close>.\<close>

definition returns_with :: "('w, 'a) py \<Rightarrow> 'w \<Rightarrow> ('a \<Rightarrow> bool) \<Rightarrow> bool" where
  "returns_with m w P = (\<exists>v w'. m w = (Inr v, w') \<and> P v)"

text \<open>A computation whose value satisfies \<open>Q\<close> whenever it returns.\<close>

definition returns_only :: "('w, 'a) py \<Rightarrow> ('a \<Rightarrow> bool) \<Rightarrow> bool" where
  "returns_only m Q = (\<forall>w v w'. m w = (Inr v, w') \<longrightarrow> Q v)"

text \<open>An external call that neither reads nor changes the world.\<close>

definition world_independent :: "('w, 'a) py \<Rightarrow> bool" where
  "world_independent m = (\<forall>w w'. m w = (fst (m w'), w))"

definition pure_lib :: "('w, 's, 'l) model_lib \<Rightarrow> bool" where
  "pure_lib lib =
     ((\<forall>C kwargs. world_independent (model_init lib C kwargs)) \<and>
      (\<forall>a b. world_independent (linear_init lib a b)))"

section \<open>Concrete collaborators and inputs\<close>

text \<open>
  A library whose instances are the arguments they were built from, in any world; and
  one whose world is the state of a random number generator, from which every
  initialiser draws the parameters of its instance.
\<close>

definition symbolic_lib :: "('w, (string \<times> pyval) list, pyval \<times> pyval) model_lib" where
  "symbolic_lib =
     \<lparr>model_init = (\<lambda>C kwargs. py_return kwargs),
      linear_init = (\<lambda>a b. py_return (a, b))\<rparr>"

definition seeded_lib :: "(nat, (string \<times> pyval) list \<times> nat, pyval \<times> pyval \<times> nat) model_lib" where
  "seeded_lib =
     \<lparr>model_init = (\<lambda>C kwargs w. (Inr (kwargs, w), Suc w)),
      linear_init = (\<lambda>a b w. (Inr (a, b, w), Suc w))\<rparr>"

definition schnet_model_config :: pyval where
  "schnet_model_config =
     PDict [(''emb_dim'', PInt 128), (''SchNet_num_filters'', PInt 128),
            (''SchNet_num_interactions'', PInt 6), (''SchNet_num_gaussians'', PInt 51),
            (''SchNet_cutoff'', PFloat 10), (''SchNet_readout'', PStr ''mean''),
            (''node_class'', PInt 119), (''num_tasks'', PInt 1)]"

definition schnet_config :: pyval where
  "schnet_config = PDict [(''model_name'', PStr ''SchNet''), (''model'', schnet_model_config)]"

definition dimenet_model_config :: pyval where
  "dimenet_model_config =
     PDict [(''node_class'', PInt 119), (''hidden_channels'', PInt 128),
            (''out_channels'', PInt 1), (''num_blocks'', PInt 6), (''num_bilinear'', PInt 8),
            (''num_spherical'', PInt 7), (''num_radial'', PInt 6), (''cutoff'', PFloat 5),
            (''envelope_exponent'', PInt 5), (''num_before_skip'', PInt 1),
            (''num_after_skip'', PInt 2), (''num_output_layers'', PInt 3)]"

definition dimenet_config :: pyval where
  "dimenet_config = PDict [(''model_name'', PStr ''DimeNet''), (''model'', dimenet_model_config)]"


definition painn_config :: pyval where
  "painn_config = PDict [(''model_name'', PStr ''PaiNN''), (''model'', schnet_model_config)]"

text \<open>
  A runtime whose model returns, for each of the \<open>n\<close> entries of \<^verbatim>\<open>x\<close>, that entry on
  each of \<open>c\<close> output channels (shape \<open>[n, c]\<close>), whose linear layer is the identity,
  and whose logger accepts everything.
\<close>

definition channel_rt :: "nat \<Rightarrow> ('w, 's, 'l, unit, unit) torch_rt" where
  "channel_rt c =
     \<lparr>module_call = (\<lambda>m x pos bt.
         py_return \<lparr>shape = [length (elems x), c], elems = concat (map (replicate c) (elems x))\<rparr>),
      linear_call = (\<lambda>head z. py_return z),
      size_call = (\<lambda>b d. py_return (int (length (elems (batch_x b))))),
      log_call = (\<lambda>name loss n. py_return ()),
      parameters = (\<lambda>self. ()),
      optimizer_init = (\<lambda>C ps lr. py_return ())\<rparr>"

definition two_graphs :: graph_batch where
  "two_graphs =
     \<lparr>batch_x = \<lparr>shape = [2], elems = [1, 2]\<rparr>,
      batch_positions = \<lparr>shape = [2, 3], elems = [0, 0, 0, 1, 1, 1]\<rparr>,
      batch_batch = \<lparr>shape = [2], elems = [0, 1]\<rparr>,
      batch_y = \<lparr>shape = [2], elems = [0, 4]\<rparr>\<rparr>"

definition headless :: "((string \<times> pyval) list, pyval \<times> pyval) pymodel" where
  "headless = Pymodel \<lparr>cls = DimeNet, state = []\<rparr> None"

definition with_head :: "((string \<times> pyval) list, pyval \<times> pyval) pymodel" where
  "with_head = Pymodel \<lparr>cls = SchNet, state = []\<rparr> (Some (PInt 1, PInt 1))"



section \<open>Running computations\<close>

lemma py_return_apply: "py_return v w = (Inr v, w)"
  by (simp add: py_return_def)

lemma py_raise_apply: "py_raise e w = (Inl e, w)"
  by (simp add: py_raise_def)

lemma py_lift_apply: "py_lift r w = (r, w)"
  by (simp add: py_lift_def)

lemmas py_apply = py_return_apply py_raise_apply py_lift_apply


lemma py_bind_Inl: "m w = (Inl e, w') \<Longrightarrow> py_bind m f w = (Inl e, w')"
  by (simp add: py_bind_def)

lemma py_bind_lift_Inr [simp]: "py_bind (py_lift (Inr v)) f = f v"
  by (rule ext) (simp add: py_bind_def py_apply)

lemma py_bind_lift_Inl [simp]: "py_bind (py_lift (Inl e)) f = py_raise e"
  by (rule ext) (simp add: py_bind_def py_apply)

lemma py_bind_return [simp]: "py_bind (py_return v) f = f v"
  by (rule ext) (simp add: py_bind_def py_apply)

lemma py_bind_raise [simp]: "py_bind (py_raise e) f = py_raise e"
  by (rule ext) (simp add: py_bind_def py_apply)

lemma py_bind_assoc: "py_bind (py_bind m f) g = py_bind m (\<lambda>v. py_bind (f v) g)"
  by (rule ext) (simp add: py_bind_def split: prod.splits sum.splits)

lemma returns_with_return [simp]: "returns_with (py_return v) w P = P v"
  by (simp add: returns_with_def py_apply)



lemma returns_always_return [simp]: "returns_always (py_return v)"
  by (simp add: returns_always_def py_apply)

section \<open>The factory on supported and unsupported names\<close>



lemma model_setup_train_unfold: "model_setup_train lib config = model_setup_pl lib config"
  by (simp add: model_setup_train_def model_setup_pl_def)

lemma model_setup_pl_unsupported:
  assumes "getitem config ''model_name'' = Inr v"
      and "v \<notin> PStr ` {''SchNet'', ''DimeNet'', ''DimeNetPlusPlus'', ''GemNet'', ''SphereNet''}"
  shows "model_setup_pl lib config w =
           (Inl (case getitem config ''model'' of
                   Inl e \<Rightarrow> e
                 | Inr mc \<Rightarrow> ValueError ''Invalid model name''), w)"
  using assms by (cases "getitem config ''model''") (simp_all add: model_setup_pl_def py_apply)





text \<open>
  C2. When the value under \<^verbatim>\<open>model_name\<close> is not one of the five supported strings,
  both definitions of \<^verbatim>\<open>model_setup\<close> raise and return nothing, before any external
  initialiser has run (the world is unchanged): the error is
  \<^verbatim>\<open>ValueError("Invalid model name")\<close>, or the error of the lookup of \<^verbatim>\<open>model\<close> when
  the configuration has no such key.
\<close>

theorem model_setup_unsupported_name:
  assumes "getitem config ''model_name'' = Inr v"
      and "v \<notin> PStr ` {''SchNet'', ''DimeNet'', ''DimeNetPlusPlus'', ''GemNet'', ''SphereNet''}"
  shows "model_setup_pl lib config w =
           (Inl (case getitem config ''model'' of
                   Inl e \<Rightarrow> e
                 | Inr mc \<Rightarrow> ValueError ''Invalid model name''), w) \<and>
         model_setup_train lib config w =
           (Inl (case getitem config ''model'' of
                   Inl e \<Rightarrow> e
                 | Inr mc \<Rightarrow> ValueError ''Invalid model name''), w)"
  using model_setup_pl_unsupported [OF assms]
  by (simp add: model_setup_train_unfold)

theorem model_setup_unsupported_name_witness:
  "getitem painn_config ''model_name'' = Inr (PStr ''PaiNN'') \<and>
   model_setup_pl symbolic_lib painn_config () = (Inl (ValueError ''Invalid model name''), ()) \<and>
   model_setup_train symbolic_lib painn_config () = (Inl (ValueError ''Invalid model name''), ())"
proof -
  have n: "getitem painn_config ''model_name'' = Inr (PStr ''PaiNN'')"
    by (simp add: painn_config_def)
  have u: "PStr ''PaiNN'' \<notin>
      PStr ` {''SchNet'', ''DimeNet'', ''DimeNetPlusPlus'', ''GemNet'', ''SphereNet''}"
    by (simp add: image_iff)
  from model_setup_unsupported_name [OF n u, of symbolic_lib "()"] n
  show ?thesis by (simp add: painn_config_def)
qed

text \<open>
  C10. The two definitions of \<^verbatim>\<open>model_setup\<close> are the same function: on every library,
  configuration and world they return the same pair or raise the same error, and leave
  the same world.
\<close>

theorem model_setup_definitions_agree: "model_setup_train = model_setup_pl"
  by (intro ext) (simp add: model_setup_train_def model_setup_pl_def)

section \<open>What a computation returns\<close>


lemma returns_only_return [simp]: "returns_only (py_return v) Q = Q v"
  by (simp add: returns_only_def py_apply)

lemma returns_only_raise [simp]: "returns_only (py_raise e) Q"
  by (simp add: returns_only_def py_apply)

lemma returns_only_bind:
  assumes "\<And>v. returns_only (f v) Q"
  shows "returns_only (py_bind m f) Q"
  using assms unfolding returns_only_def py_bind_def
  by (auto split: prod.splits sum.splits)

lemma returns_only_getitem:
  assumes "\<And>v. getitem c k = Inr v \<Longrightarrow> returns_only (f v) Q"
  shows "returns_only (py_bind (py_lift (getitem c k)) f) Q"
  using assms by (cases "getitem c k") simp_all

lemma returns_only_new_instance:
  assumes "\<And>s. returns_only (f \<lparr>cls = C, state = s\<rparr>) Q"
  shows "returns_only (py_bind (new_instance lib C kwargs) f) Q"
  unfolding new_instance_def py_bind_assoc
  by (rule returns_only_bind) (simp add: assms)

lemma returns_only_if:
  assumes "c \<Longrightarrow> returns_only a Q" and "\<not> c \<Longrightarrow> returns_only b Q"
  shows "returns_only (if c then a else b) Q"
  using assms by simp

text \<open>
  Whatever \<^verbatim>\<open>model_setup\<close> returns is an instance of the class that \<^verbatim>\<open>model_name\<close>
  names, with a head exactly for \<^verbatim>\<open>SchNet\<close>: no other name yields a model.
\<close>

lemma model_setup_pl_result:
  "returns_only (model_setup_pl lib config)
     (\<lambda>(model, head). getitem config ''model_name'' = Inr (PStr (class_name (cls model))) \<and>
         (head \<noteq> None \<longleftrightarrow> cls model = SchNet))"
  unfolding model_setup_pl_def
  by (intro returns_only_getitem returns_only_if returns_only_new_instance returns_only_bind)
     simp_all

section \<open>The factory and the world\<close>

lemma world_independent_lift [simp]: "world_independent (py_lift r)"
  by (simp add: world_independent_def py_apply)

lemma world_independent_return [simp]: "world_independent (py_return v)"
  by (simp add: world_independent_def py_apply)

lemma world_independent_raise [simp]: "world_independent (py_raise e)"
  by (simp add: world_independent_def py_apply)

lemma world_independent_bind:
  assumes m: "world_independent m" and f: "\<And>v. world_independent (f v)"
  shows "world_independent (py_bind m f)"
  unfolding world_independent_def
proof (intro allI)
  fix w w'
  from m have mw: "m w = (fst (m w'), w)" and mw': "m w' = (fst (m w'), w')"
    unfolding world_independent_def by blast+
  show "py_bind m f w = (fst (py_bind m f w'), w)"
  proof (cases "fst (m w')")
    case (Inl e)
    with mw mw' show ?thesis by (simp add: py_bind_def)
  next
    case (Inr v)
    from f [of v] have "f v w = (fst (f v w'), w)"
      unfolding world_independent_def by blast
    with Inr mw mw' show ?thesis by (simp add: py_bind_def)
  qed
qed

lemma world_independent_if:
  assumes "world_independent a" and "world_independent b"
  shows "world_independent (if c then a else b)"
  using assms by simp

lemma world_independent_new_instance:
  assumes "world_independent (model_init lib C kwargs)"
  shows "world_independent (new_instance lib C kwargs)"
  unfolding new_instance_def by (intro world_independent_bind assms) simp

lemma model_setup_pl_world_independent:
  assumes "pure_lib lib"
  shows "world_independent (model_setup_pl lib config)"
proof -
  from assms have i: "\<And>C kwargs. world_independent (model_init lib C kwargs)"
    and l: "\<And>a b. world_independent (linear_init lib a b)"
    unfolding pure_lib_def by blast+
  show ?thesis
    unfolding model_setup_pl_def
    by (intro world_independent_bind world_independent_if world_independent_new_instance
          world_independent_lift world_independent_return world_independent_raise i l)
qed

lemma symbolic_lib_pure: "pure_lib symbolic_lib"
  by (simp add: pure_lib_def symbolic_lib_def)

text \<open>
  C8, as amended. \<^verbatim>\<open>model_setup\<close> reads nothing but the configuration and has no
  effect of its own: whenever the external initialisers neither read nor change the
  world, two invocations on the same configuration in any two worlds yield the same
  outcome and leave the world as it was. It depends on the world through the
  initialisers only.
\<close>

theorem model_setup_pure_over_pure_constructors:
  assumes "pure_lib lib"
  shows "fst (model_setup_pl lib config w) = fst (model_setup_pl lib config w') \<and>
         snd (model_setup_pl lib config w) = w \<and>
         fst (model_setup_train lib config w) = fst (model_setup_train lib config w') \<and>
         snd (model_setup_train lib config w) = w"
proof -
  from model_setup_pl_world_independent [OF assms, of config]
  have "model_setup_pl lib config w = (fst (model_setup_pl lib config w'), w)"
    unfolding world_independent_def by blast
  then show ?thesis by (simp add: model_setup_train_unfold)
qed

theorem model_setup_pure_over_pure_constructors_witness:
  "pure_lib (symbolic_lib :: (nat, (string \<times> pyval) list, pyval \<times> pyval) model_lib) \<and>
   fst (model_setup_pl symbolic_lib schnet_config (0::nat)) =
     fst (model_setup_pl symbolic_lib schnet_config (2::nat)) \<and>
   snd (model_setup_pl symbolic_lib schnet_config (0::nat)) = 0 \<and>
   (\<exists>model head. fst (model_setup_pl symbolic_lib schnet_config (0::nat)) = Inr (model, head))"
proof -
  have p: "pure_lib (symbolic_lib :: (nat, (string \<times> pyval) list, pyval \<times> pyval) model_lib)"
    by (rule symbolic_lib_pure)
  have r: "\<exists>model head. fst (model_setup_pl symbolic_lib schnet_config (0::nat)) = Inr (model, head)"
    by (simp add: model_setup_pl_def schnet_config_def schnet_model_config_def symbolic_lib_def
          new_instance_def py_bind_def py_apply)
  from model_setup_pure_over_pure_constructors [OF p, of schnet_config 0 2] p r
  show ?thesis by simp
qed

text \<open>
  C8, as stated, fails as soon as an initialiser draws on the world, as the random
  initialisation of parameters does: with \<open>seeded_lib\<close> the first invocation moves the
  generator from 0 to 2, and the second invocation, on the same configuration, returns
  a different pair.
\<close>

theorem model_setup_seeded_counterexample:
  "snd (model_setup_pl seeded_lib schnet_config 0) = 2 \<and>
   fst (model_setup_pl seeded_lib schnet_config 0) \<noteq>
     fst (model_setup_pl seeded_lib schnet_config 2) \<and>
   snd (model_setup_train seeded_lib schnet_config 0) = 2 \<and>
   fst (model_setup_train seeded_lib schnet_config 0) \<noteq>
     fst (model_setup_train seeded_lib schnet_config 2)"
  by (simp add: model_setup_train_unfold model_setup_pl_def schnet_config_def
        schnet_model_config_def seeded_lib_def new_instance_def py_bind_def py_apply)

section \<open>The mean squared error\<close>




text \<open>
  On two well-formed tensors of one shape nothing is broadcast: the loss is the sum of
  the squared differences of the elements, divided by their number.
\<close>

lemma broadcast_rev_same: "broadcast_rev s s = Some s"
  by (induction s) simp_all

lemma broadcast_shapes_same: "broadcast_shapes s s = Some s"
  by (simp add: broadcast_shapes_def broadcast_rev_same)

lemma pad_shape_same: "pad_shape (length s) s = s"
  by (simp add: pad_shape_def)

lemma concat_blocks: "concat (map (\<lambda>i. take p (drop (i * p) xs)) [0..<d]) = take (d * p) xs"
proof (induction d)
  case 0
  show ?case by simp
next
  case (Suc d)
  have "take (d * p + p) xs = take (d * p) xs @ take p (drop (d * p) xs)"
    by (rule take_add)
  with Suc show ?case by (simp add: add.commute)
qed

lemma expand_elems_same: "length xs = prod_list s \<Longrightarrow> expand_elems s s xs = xs"
proof (induction s arbitrary: xs)
  case Nil
  show ?case by simp
next
  case (Cons d ds)
  let ?p = "prod_list ds"
  have len: "length xs = d * ?p" using Cons.prems by simp
  have block: "expand_elems ds ds (take ?p (drop (i * ?p) xs)) = take ?p (drop (i * ?p) xs)"
    if "i < d" for i
  proof (rule Cons.IH)
    from that have "Suc i \<le> d" by simp
    then have "Suc i * ?p \<le> d * ?p" by (rule mult_le_mono1)
    then have "?p \<le> length xs - i * ?p" using len by simp
    then show "length (take ?p (drop (i * ?p) xs)) = ?p" by simp
  qed
  have "expand_elems (d # ds) (d # ds) xs
      = concat (map (\<lambda>i. expand_elems ds ds (take ?p (drop (i * ?p) xs))) [0..<d])"
    by simp
  also have "\<dots> = concat (map (\<lambda>i. take ?p (drop (i * ?p) xs)) [0..<d])"
    by (rule arg_cong [where f = concat], rule map_cong [OF refl]) (simp add: block)
  also have "\<dots> = take (d * ?p) xs" by (rule concat_blocks)
  also have "\<dots> = xs" using len by simp
  finally show ?case .
qed

lemma mse_loss_same_shape:
  assumes "shape z = shape t" and "well_formed z" and "well_formed t" and "elems z \<noteq> []"
  shows "mse_loss z t =
           Inr (Finite (sum_list (squared_differences (elems z) (elems t)) /
                        real (length (elems z))))"
proof -
  from assms(4) have "length (elems z) \<noteq> 0" by simp
  with assms have n: "prod_list (shape t) \<noteq> 0"
    by (simp add: well_formed_def)
  from assms n show ?thesis
    by (simp add: mse_loss_def broadcast_shapes_same pad_shape_same expand_elems_same
          well_formed_def Let_def)
qed

section \<open>The adapter\<close>

text \<open>
  C3. The loss that \<^verbatim>\<open>_get_preds_loss_accuracy\<close> computes is the loss as the
  specification words it, on every runtime, adapter, batch and world, errors included:
  the mean squared error of the predictions against the target, where the head
  configuration decides only that the model output goes through the head and \<^verbatim>\<open>y\<close> is
  unsqueezed at dimension 1, or that the model output is squeezed and \<^verbatim>\<open>y\<close> is left
  as it is. (By \<open>mse_loss_same_shape\<close> the mean squared error of two tensors of one
  shape is the mean of the squared differences of their elements.)
\<close>

theorem loss_is_mean_squared_error:
  "get_preds_loss_accuracy rt self batch = spec_loss rt self batch"
  by (cases "graph_pred_linear self")
     (simp_all add: get_preds_loss_accuracy_def spec_loss_def spec_predictions_def
        spec_target_def py_bind_assoc)

text \<open>
  C4, at the failing input. On an adapter without a head, \<^verbatim>\<open>forward\<close> raises a
  \<^verbatim>\<open>TypeError\<close> and produces no prediction, where \<^verbatim>\<open>_get_preds_loss_accuracy\<close>, which
  tests the head for \<^verbatim>\<open>None\<close>, returns a loss on the same adapter and batch.
\<close>

theorem forward_without_head_raises:
  "forward (channel_rt 1) headless two_graphs () =
     (Inl (TypeError ''NoneType object is not callable''), ()) \<and>
   get_preds_loss_accuracy (channel_rt 1) headless two_graphs () = (Inr (Finite (5 / 2)), ())"
  by (simp add: forward_def get_preds_loss_accuracy_def headless_def Pymodel_def channel_rt_def
        two_graphs_def squeeze_def mse_loss_def broadcast_shapes_def pad_shape_def
        squared_differences_def py_bind_def upt_rec power2_eq_square py_apply)










lemma forward_None:
  assumes "graph_pred_linear self = None"
  shows "isl (fst (forward rt self b w))"
  using assms by (auto simp: forward_def py_bind_def py_apply split: prod.splits sum.splits)

text \<open>
  C9. \<^verbatim>\<open>forward\<close> applies the head without a test: on an adapter without a head it
  raises in every world and on every batch, so it returns only on an adapter with a
  head; and the adapter built from what \<^verbatim>\<open>model_setup\<close> returns for any name other
  than \<^verbatim>\<open>SchNet\<close> has no head, so \<^verbatim>\<open>forward\<close> raises on it.
\<close>

theorem forward_requires_head:
  "(graph_pred_linear self = None \<longrightarrow> isl (fst (forward rt self b w))) \<and>
   (forward rt self b w = (Inr z, w') \<longrightarrow> graph_pred_linear self \<noteq> None) \<and>
   ((model_setup_pl lib config v = (Inr (model, head), v') \<or>
     model_setup_train lib config v = (Inr (model, head), v')) \<and>
    getitem config ''model_name'' \<noteq> Inr (PStr ''SchNet'') \<longrightarrow>
      head = None \<and> isl (fst (forward rt (Pymodel model head) b w)))"
proof -
  have a: "isl (fst (forward rt self b w))" if "graph_pred_linear self = None"
    using that by (rule forward_None)
  have b: "graph_pred_linear self \<noteq> None" if "forward rt self b w = (Inr z, w')"
    using that forward_None [of self rt b w] by auto
  have c: "head = None \<and> isl (fst (forward rt (Pymodel model head) b w))"
    if r: "model_setup_pl lib config v = (Inr (model, head), v') \<or>
           model_setup_train lib config v = (Inr (model, head), v')"
      and n: "getitem config ''model_name'' \<noteq> Inr (PStr ''SchNet'')"
  proof -
    from r have "model_setup_pl lib config v = (Inr (model, head), v')"
      by (simp add: model_setup_train_unfold)
    with model_setup_pl_result [of lib config]
    have "getitem config ''model_name'' = Inr (PStr (class_name (cls model)))"
      and h: "head \<noteq> None \<longleftrightarrow> cls model = SchNet"
      unfolding returns_only_def by blast+
    with n have "cls model \<noteq> SchNet" by auto
    with h have "head = None" by simp
    moreover from this have "graph_pred_linear (Pymodel model head) = None"
      by (simp add: Pymodel_def)
    ultimately show ?thesis by (simp add: forward_None)
  qed
  from a b c show ?thesis by blast
qed

theorem forward_requires_head_witness:
  "graph_pred_linear headless = None \<and>
   isl (fst (forward (channel_rt 1) headless two_graphs ())) \<and>
   forward (channel_rt 1) with_head two_graphs () = (Inr \<lparr>shape = [2, 1], elems = [1, 2]\<rparr>, ()) \<and>
   graph_pred_linear with_head \<noteq> None \<and>
   getitem dimenet_config ''model_name'' \<noteq> Inr (PStr ''SchNet'') \<and>
   (\<exists>model. model_setup_pl symbolic_lib dimenet_config () = (Inr (model, None), ()) \<and>
      isl (fst (forward (channel_rt 1)
        (Pymodel model (None :: (pyval \<times> pyval) option)) two_graphs ())))"
proof -
  let ?z = "\<lparr>shape = [2, 1], elems = [1, 2]\<rparr>"
  have none: "graph_pred_linear headless = None"
    by (simp add: headless_def Pymodel_def)
  have fwd: "forward (channel_rt 1) with_head two_graphs () = (Inr ?z, ())"
    by (simp add: forward_def with_head_def Pymodel_def channel_rt_def two_graphs_def
          py_bind_def py_apply)
  have name: "getitem dimenet_config ''model_name'' \<noteq> Inr (PStr ''SchNet'')"
    by (simp add: dimenet_config_def)
  obtain model head where built:
    "model_setup_pl symbolic_lib dimenet_config () = (Inr (model, head), ())"
    by (simp add: model_setup_pl_def dimenet_config_def dimenet_model_config_def
          symbolic_lib_def new_instance_def py_bind_def py_apply)
  from forward_requires_head
         [of headless "channel_rt 1" two_graphs "()" "?z" "()" symbolic_lib dimenet_config
             "()" model head "()"] none
  have 1: "isl (fst (forward (channel_rt 1) headless two_graphs ()))"
    by blast
  from forward_requires_head
         [of with_head "channel_rt 1" two_graphs "()" "?z" "()" symbolic_lib dimenet_config
             "()" model head "()"] fwd
  have 2: "graph_pred_linear with_head \<noteq> None"
    by blast
  from forward_requires_head
         [of "Pymodel model head" "channel_rt 1" two_graphs "()" "?z" "()" symbolic_lib
             dimenet_config "()" model head "()"] built name
  have 3: "head = None \<and> isl (fst (forward (channel_rt 1) (Pymodel model head) two_graphs ()))"
    by blast
  with built have "\<exists>model. model_setup_pl symbolic_lib dimenet_config () = (Inr (model, None), ()) \<and>
      isl (fst (forward (channel_rt 1)
        (Pymodel model (None :: (pyval \<times> pyval) option)) two_graphs ()))"
    by blast
  with none 1 fwd 2 name show ?thesis by blast
qed

section \<open>The driver\<close>




end
